theory Spec2Isabelle
  imports Complex_Main "HOL-Library.Option_ord" "HOL-Library.Multiset" "HOL-Library.Word"
begin

section \<open>Messages as the server stores them and as the clients receive them\<close>

text \<open>
  A reference to a user inside a message is, in JavaScript, one of four things: the
  field is missing (\<open>undefined\<close>), it is \<open>null\<close> (a populated reference whose
  user no longer exists), it is the bare id, or it is the populated user object, of
  which only \<open>_id\<close> is read by the code under study.
\<close>

datatype uref = Undefined | Null | Raw string | Populated string

datatype js_error = TypeError

text \<open>
  The text of a message is a JavaScript string: a sequence of 16-bit code units. Ids,
  event names and the other short strings of the code are written as HOL strings.
\<close>

type_synonym jstring = "16 word list"

text \<open>
  The classifier's verdicts, with the fields that \<open>sendMessage\<close> writes in its
  fallback objects. JavaScript numbers are carried as reals; they are never computed with.
\<close>

record sentiment_info =
  s_value :: string
  confidence :: real
  score :: real
  source :: string
  wordAnalysis :: "string list"
  enhanced :: bool

record toxicity_info =
  isToxic :: bool
  toxicityScore :: real
  severity :: string
  categories :: "string list"

record analysis =
  a_sentiment :: sentiment_info
  a_toxicity :: toxicity_info
  a_sentimentOverridden :: bool

text \<open>
  The message document. \<open>mid\<close> is \<open>_id\<close>; \<open>msg_text\<close> and \<open>msg_image\<close> are
  \<open>text\<close> and \<open>image\<close> (\<open>None\<close> is \<open>null\<close>); \<open>createdAt\<close> is the creation time
  in milliseconds, \<open>None\<close> when the field is missing. The type parameter is the type
  of \<open>replyTo\<close>: an optional id in the database, an optional document once populated.
\<close>

record 'r message =
  mid :: string
  senderId :: uref
  receiverId :: uref
  groupId :: "string option"
  msg_text :: "jstring option"
  msg_image :: "string option"
  sentiment :: string
  sentimentAnalysis :: sentiment_info
  sentimentOverridden :: bool
  toxicity :: toxicity_info
  replyTo :: 'r
  isEncrypted :: bool
  edited :: bool
  isDeleted :: bool
  pinned :: bool
  createdAt :: "int option"

text \<open>JavaScript truthiness of a value that is a string, \<open>null\<close> or \<open>undefined\<close>.\<close>

definition truthy :: "'a list option \<Rightarrow> bool" where
  "truthy s = (s \<noteq> None \<and> s \<noteq> Some [])"

section \<open>The client: the chat store (useChatStore)\<close>

text \<open>
  The entry of the conversation list that is selected: its \<open>_id\<close> and, for a group,
  its \<open>groupId\<close>.
\<close>

record selected =
  sel_id :: string
  sel_groupId :: "string option"

text \<open>
  A listener function registered on a socket. The four closures that
  \<open>subscribeToMessages\<close> creates are told apart by the number of the call that
  created them (two closures of two calls are different objects); \<open>OtherFn\<close> is a
  listener of another component, which does not touch the chat store.
\<close>

datatype closure =
  NewMessageFn nat | DeletedFn nat | EditedFn nat | PinnedFn nat | OtherFn nat

text \<open>
  The state the store's functions read and write: the store's own fields
  (\<open>messages\<close>, \<open>selectedUser\<close>), the variables of its closure (the four handler
  references and \<open>currentSocket\<close>), the two fields of the auth store that are read
  (\<open>authUser._id\<close>, \<open>socket\<close>), and the listener tables of the sockets, in
  registration order. \<open>fresh\<close> numbers the next closures.
\<close>

record 'r client =
  messages :: "'r message list"
  selectedUser :: "selected option"
  authUser :: "string option"
  socket :: "nat option"
  messageHandler_ref :: "closure option"
  messageDeletedHandler_ref :: "closure option"
  messageEditedHandler_ref :: "closure option"
  messagePinnedHandler_ref :: "closure option"
  currentSocket :: "nat option"
  listeners :: "nat \<Rightarrow> (string \<times> closure) list"
  fresh :: nat

subsection \<open>The handlers of the four events\<close>

text \<open>\<open>x._id\<close>: a TypeError on \<open>undefined\<close> and \<open>null\<close>, \<open>undefined\<close> on a string.\<close>

fun get_id :: "uref \<Rightarrow> js_error + string option" where
  "get_id Undefined = Inl TypeError"
| "get_id Null = Inl TypeError"
| "get_id (Raw s) = Inr None"
| "get_id (Populated i) = Inr (Some i)"

definition isRelevantGroup :: "selected \<Rightarrow> 'r message \<Rightarrow> bool" where
  "isRelevantGroup sel m = (truthy (sel_groupId sel) \<and> groupId m = sel_groupId sel)"

text \<open>
  \<open>isRelevantDM\<close>, with the evaluation order of \<open>&&\<close> and \<open>||\<close>: the receiver
  is only looked at when the sender matched.
\<close>

definition isRelevantDM :: "selected \<Rightarrow> string \<Rightarrow> 'r message \<Rightarrow> js_error + bool" where
  "isRelevantDM sel au m =
     (if truthy (sel_groupId sel) then Inr False
      else case get_id (senderId m) of
        Inl e \<Rightarrow> Inl e
      | Inr s \<Rightarrow>
          if s = Some (sel_id sel) then
            (case get_id (receiverId m) of
               Inl e \<Rightarrow> Inl e
             | Inr r \<Rightarrow>
                 if r = Some au then Inr True
                 else if s = Some au then Inr (r = Some (sel_id sel))
                 else Inr False)
          else if s = Some au then
            (case get_id (receiverId m) of
               Inl e \<Rightarrow> Inl e
             | Inr r \<Rightarrow> Inr (r = Some (sel_id sel)))
          else Inr False)"

definition messageHandler :: "'r client \<Rightarrow> 'r message \<Rightarrow> js_error + 'r client" where
  "messageHandler c newMessage =
     (case (selectedUser c, authUser c) of
        (Some currentSelectedUser, Some currentAuthUser) \<Rightarrow>
          (case isRelevantDM currentSelectedUser currentAuthUser newMessage of
             Inl e \<Rightarrow> Inl e
           | Inr dm \<Rightarrow>
               if isRelevantGroup currentSelectedUser newMessage \<or> dm then
                 (if list_ex (\<lambda>msg. mid msg = mid newMessage) (messages c) then Inr c
                  else Inr (c\<lparr>messages := messages c @ [newMessage]\<rparr>))
               else Inr c)
      | _ \<Rightarrow> Inr c)"

definition messageDeletedHandler :: "'r client \<Rightarrow> 'r message \<Rightarrow> 'r client" where
  "messageDeletedHandler c deletedMessage =
     c\<lparr>messages :=
        map (\<lambda>msg. if mid msg = mid deletedMessage then deletedMessage else msg) (messages c)\<rparr>"

definition messageEditedHandler :: "'r client \<Rightarrow> 'r message \<Rightarrow> 'r client" where
  "messageEditedHandler c editedMessage =
     c\<lparr>messages :=
        map (\<lambda>msg. if mid msg = mid editedMessage then editedMessage else msg) (messages c)\<rparr>"

definition messagePinnedHandler :: "'r client \<Rightarrow> 'r message \<Rightarrow> 'r client" where
  "messagePinnedHandler c pinnedMessage =
     c\<lparr>messages :=
        map (\<lambda>msg. if mid msg = mid pinnedMessage then pinnedMessage else msg) (messages c)\<rparr>"

text \<open>
  A \<open>created\<close> event reaching the store: a listener that throws leaves the state as
  it was (\<open>set\<close> is the handler's last step).
\<close>

definition deliver_created :: "'r client \<Rightarrow> 'r message \<Rightarrow> 'r client" where
  "deliver_created c m = (case messageHandler c m of Inl e \<Rightarrow> c | Inr c' \<Rightarrow> c')"

subsection \<open>Relevance, in the words of the specification\<close>

datatype conversation = Direct string string | Group string

text \<open>The conversation a store is showing, from its selection and its user.\<close>

definition active_conversation :: "'r client \<Rightarrow> conversation option" where
  "active_conversation c =
     (case (selectedUser c, authUser c) of
        (Some sel, Some au) \<Rightarrow>
          (case sel_groupId sel of
             Some g \<Rightarrow> if g = [] then Some (Direct au (sel_id sel)) else Some (Group g)
           | None \<Rightarrow> Some (Direct au (sel_id sel)))
      | _ \<Rightarrow> None)"

fun ref_user :: "uref \<Rightarrow> string option" where
  "ref_user (Raw s) = Some s"
| "ref_user (Populated i) = Some i"
| "ref_user _ = None"

text \<open>
  A message is relevant to a group when it carries the group's id, and to a direct pair
  when it carries a receiver and its sender and receiver are the two users of the pair,
  in either order.
\<close>

fun spec_relevant :: "conversation \<Rightarrow> 'r message \<Rightarrow> bool" where
  "spec_relevant (Group g) m = (groupId m = Some g)"
| "spec_relevant (Direct a b) m =
     (case (ref_user (senderId m), ref_user (receiverId m)) of
        (Some s, Some r) \<Rightarrow> (s = a \<and> r = b) \<or> (s = b \<and> r = a)
      | _ \<Rightarrow> False)"

subsection \<open>Binding the handlers to a socket\<close>

text \<open>
  The socket's emitter: \<open>on\<close> appends a listener to the event's list, \<open>off\<close> with
  a function removes its first registration and does nothing when the function is not
  registered (or is \<open>null\<close>).
\<close>

definition socket_on :: "nat \<Rightarrow> string \<Rightarrow> closure \<Rightarrow> 'r client \<Rightarrow> 'r client" where
  "socket_on s ev f c = c\<lparr>listeners := (listeners c)(s := listeners c s @ [(ev, f)])\<rparr>"

definition socket_off :: "nat \<Rightarrow> string \<Rightarrow> closure option \<Rightarrow> 'r client \<Rightarrow> 'r client" where
  "socket_off s ev fo c =
     (case fo of
        None \<Rightarrow> c
      | Some f \<Rightarrow> c\<lparr>listeners := (listeners c)(s := remove1 (ev, f) (listeners c s))\<rparr>)"

text \<open>The four \<open>off\<close> calls on the handler references, in the order of the source.\<close>

definition off_handlers :: "nat \<Rightarrow> 'r client \<Rightarrow> 'r client" where
  "off_handlers s c =
     socket_off s ''messagePinned'' (messagePinnedHandler_ref c)
       (socket_off s ''messageEdited'' (messageEditedHandler_ref c)
         (socket_off s ''messageDeleted'' (messageDeletedHandler_ref c)
           (socket_off s ''newMessage'' (messageHandler_ref c) c)))"

definition clear_handlers :: "'r client \<Rightarrow> 'r client" where
  "clear_handlers c =
     c\<lparr>messageHandler_ref := None, messageDeletedHandler_ref := None,
       messageEditedHandler_ref := None, messagePinnedHandler_ref := None\<rparr>"

definition register_handlers :: "nat \<Rightarrow> 'r client \<Rightarrow> 'r client" where
  "register_handlers s c =
     (let n = fresh c;
          c1 = c\<lparr>messageHandler_ref := Some (NewMessageFn n),
                 messageDeletedHandler_ref := Some (DeletedFn n),
                 messageEditedHandler_ref := Some (EditedFn n),
                 messagePinnedHandler_ref := Some (PinnedFn n),
                 fresh := Suc n,
                 currentSocket := Some s\<rparr>
      in socket_on s ''messagePinned'' (PinnedFn n)
           (socket_on s ''messageEdited'' (EditedFn n)
             (socket_on s ''messageDeleted'' (DeletedFn n)
               (socket_on s ''newMessage'' (NewMessageFn n) c1))))"

definition subscribeToMessages :: "'r client \<Rightarrow> 'r client" where
  "subscribeToMessages c =
     (case socket c of
        None \<Rightarrow> c
      | Some s \<Rightarrow>
          if selectedUser c = None then c
          else
            let c1 = (case currentSocket c of
                        None \<Rightarrow> c
                      | Some old \<Rightarrow> if old \<noteq> s then clear_handlers (off_handlers old c) else c)
            in if currentSocket c1 = Some s \<and> messageHandler_ref c1 \<noteq> None then c1
               else
                 let c2 = (if messageHandler_ref c1 \<noteq> None then off_handlers s c1 else c1)
                 in register_handlers s c2)"

definition unsubscribeFromMessages :: "'r client \<Rightarrow> 'r client" where
  "unsubscribeFromMessages c =
     (case currentSocket c of
        None \<Rightarrow> c
      | Some s \<Rightarrow> (clear_handlers (off_handlers s c))\<lparr>currentSocket := None\<rparr>)"

definition setSelectedUser :: "selected option \<Rightarrow> 'r client \<Rightarrow> 'r client" where
  "setSelectedUser u c = c\<lparr>selectedUser := u\<rparr>"

text \<open>
  An event arriving on a socket: the listeners registered for its name run in
  registration order, and a listener that throws stops the run.
\<close>

fun call :: "closure \<Rightarrow> 'r message \<Rightarrow> 'r client \<Rightarrow> js_error + 'r client" where
  "call (NewMessageFn n) m c = messageHandler c m"
| "call (DeletedFn n) m c = Inr (messageDeletedHandler c m)"
| "call (EditedFn n) m c = Inr (messageEditedHandler c m)"
| "call (PinnedFn n) m c = Inr (messagePinnedHandler c m)"
| "call (OtherFn n) m c = Inr c"

fun run_listeners ::
  "(string \<times> closure) list \<Rightarrow> string \<Rightarrow> 'r message \<Rightarrow> 'r client \<Rightarrow> js_error + 'r client" where
  "run_listeners [] ev m c = Inr c"
| "run_listeners ((e, f) # ls) ev m c =
     (if e = ev then
        (case call f m c of Inl x \<Rightarrow> Inl x | Inr c' \<Rightarrow> run_listeners ls ev m c')
      else run_listeners ls ev m c)"

definition socket_emit :: "nat \<Rightarrow> string \<Rightarrow> 'r message \<Rightarrow> 'r client \<Rightarrow> js_error + 'r client" where
  "socket_emit s ev m c = run_listeners (listeners c s) ev m c"

text \<open>
  The store's own listeners on a socket, and the state in which exactly one set of four
  is bound to socket \<open>s\<close>: \<open>currentSocket\<close> is \<open>s\<close>, and the store's listeners
  on \<open>s\<close> are the four closures that the references hold, each once, under its event.
\<close>

fun own_listener :: "string \<times> closure \<Rightarrow> bool" where
  "own_listener (ev, OtherFn n) = False"
| "own_listener (ev, f) = True"

fun kind :: "closure \<Rightarrow> string" where
  "kind (NewMessageFn n) = ''newMessage''"
| "kind (DeletedFn n) = ''messageDeleted''"
| "kind (EditedFn n) = ''messageEdited''"
| "kind (PinnedFn n) = ''messagePinned''"
| "kind (OtherFn n) = []"

definition one_listener_set :: "'r client \<Rightarrow> nat \<Rightarrow> bool" where
  "one_listener_set c s =
     (currentSocket c = Some s \<and>
      map (\<lambda>(ev, f). (ev, kind f, Some f)) (filter own_listener (listeners c s)) =
        [(''newMessage'', ''newMessage'', messageHandler_ref c),
         (''messageDeleted'', ''messageDeleted'', messageDeletedHandler_ref c),
         (''messageEdited'', ''messageEdited'', messageEditedHandler_ref c),
         (''messagePinned'', ''messagePinned'', messagePinnedHandler_ref c)])"

section \<open>The client: the recency index of the sidebar\<close>





section \<open>The server: the message controller\<close>

text \<open>
  What the controller calls and this development takes as given: the socket registry
  (\<open>getReceiverSocketId\<close>, whose argument may be \<open>undefined\<close>), the group, user and
  reaction collections (is the user a member of the group; does a referenced user exist,
  so that \<open>populate\<close> finds it; the reactions to a message, each with its type and the
  id of its user, in the order \<open>find\<close> gives them), the string that \<open>toString()\<close>
  gives for a populated user document, the two directions of the cipher, the classifier
  (\<open>None\<close> when it throws or its result has no sentiment) and the media store
  (\<open>None\<close> when the upload throws).
\<close>

record env =
  getReceiverSocketId :: "string option \<Rightarrow> string option"
  groupMember :: "string \<Rightarrow> string \<Rightarrow> bool"
  userExists :: "string \<Rightarrow> bool"
  findReactions :: "string \<Rightarrow> (string \<times> string) list"
  docString :: "string \<Rightarrow> string"
  encryptCaesar :: "jstring \<Rightarrow> jstring"
  decryptCaesar :: "jstring \<Rightarrow> jstring"
  analyzeTextToxicityWithEnhancedSentiment :: "jstring \<Rightarrow> string \<Rightarrow> analysis option"
  upload :: "string \<Rightarrow> string option"

type_synonym stored = "string option message"

text \<open>
  \<open>replyTo\<close> of a message sent to a client: \<open>null\<close>, the id as stored, or the
  referenced document once populated.
\<close>

datatype reply = NoReply | ReplyId string | ReplyDoc stored

type_synonym payload = "reply message"

datatype target = Room string | ToSocket string

type_synonym emission = "target \<times> string \<times> payload"

text \<open>
  A reaction after \<open>populate("userId")\<close>, and a message of the history with what
  \<open>getMessages\<close> attaches to it. Of a user only \<open>_id\<close> is carried; \<open>None\<close> in a
  summary is an \<open>_id\<close> that is \<open>undefined\<close>.
\<close>

record reaction =
  reaction_type :: string
  reaction_user :: uref

record entry =
  messageObj :: payload
  reactions :: "reaction list"
  reactionSummary :: "(string \<times> string option list) list"
  totalReactions :: nat

datatype body = ErrorBody string | MessageBody string | Doc payload | Docs "entry list"

text \<open>
  What a request leaves behind: the response, the collection of messages and the events
  handed to the sockets, in order.
\<close>

record outcome =
  status :: nat
  body :: body
  store :: "stored list"
  emitted :: "emission list"

subsection \<open>The collection\<close>

definition findById :: "stored list \<Rightarrow> string \<Rightarrow> stored option" where
  "findById db i = find (\<lambda>m. mid m = i) db"

text \<open>\<open>save\<close> of a document that was read from the collection writes it back in place.\<close>

fun save :: "stored \<Rightarrow> stored list \<Rightarrow> stored list" where
  "save m [] = []"
| "save m (x # xs) = (if mid x = mid m then m # xs else x # save m xs)"

fun populate_user :: "env \<Rightarrow> uref \<Rightarrow> uref" where
  "populate_user e (Raw i) = (if userExists e i then Populated i else Null)"
| "populate_user e r = r"

definition with_reply :: "'a message \<Rightarrow> 'b \<Rightarrow> 'b message" where
  "with_reply m r =
     \<lparr>mid = mid m, senderId = senderId m, receiverId = receiverId m, groupId = groupId m,
      msg_text = msg_text m, msg_image = msg_image m, sentiment = sentiment m,
      sentimentAnalysis = sentimentAnalysis m, sentimentOverridden = sentimentOverridden m,
      toxicity = toxicity m, replyTo = r, isEncrypted = isEncrypted m, edited = edited m,
      isDeleted = isDeleted m, pinned = pinned m, createdAt = createdAt m\<rparr>"

text \<open>\<open>populate\<close> of \<open>replyTo\<close>, with the sender of the referenced document.\<close>

definition populate_reply :: "env \<Rightarrow> stored list \<Rightarrow> string option \<Rightarrow> reply" where
  "populate_reply e db r =
     (case r of
        None \<Rightarrow> NoReply
      | Some i \<Rightarrow>
          (case findById db i of
             None \<Rightarrow> NoReply
           | Some d \<Rightarrow> ReplyDoc (d\<lparr>senderId := populate_user e (senderId d)\<rparr>)))"

definition unpopulated_reply :: "string option \<Rightarrow> reply" where
  "unpopulated_reply r = (case r of None \<Rightarrow> NoReply | Some i \<Rightarrow> ReplyId i)"

text \<open>
  The two decryption steps before a message leaves the server: of its own text, and of
  the text of a populated \<open>replyTo\<close> (an unpopulated one has no \<open>isEncrypted\<close>).
  The flag \<open>isDecryptedForDisplay\<close> that the source sets beside is not modelled.
\<close>

definition decrypt_text :: "env \<Rightarrow> 'r message \<Rightarrow> 'r message" where
  "decrypt_text e m =
     (case msg_text m of
        Some t \<Rightarrow> if isEncrypted m \<and> t \<noteq> [] then m\<lparr>msg_text := Some (decryptCaesar e t)\<rparr> else m
      | None \<Rightarrow> m)"

definition decrypt_reply :: "env \<Rightarrow> payload \<Rightarrow> payload" where
  "decrypt_reply e m =
     (case replyTo m of
        ReplyDoc d \<Rightarrow> m\<lparr>replyTo := ReplyDoc (decrypt_text e d)\<rparr>
      | _ \<Rightarrow> m)"

text \<open>\<open>x.toString()\<close> of a reference: a TypeError on \<open>undefined\<close> and \<open>null\<close>.\<close>

fun ref_toString :: "env \<Rightarrow> uref \<Rightarrow> js_error + string" where
  "ref_toString e Undefined = Inl TypeError"
| "ref_toString e Null = Inl TypeError"
| "ref_toString e (Raw i) = Inr i"
| "ref_toString e (Populated i) = Inr (docString e i)"

fun ref_present :: "uref \<Rightarrow> bool" where
  "ref_present Undefined = False"
| "ref_present Null = False"
| "ref_present (Raw i) = True"
| "ref_present (Populated i) = True"

definition to_socket :: "string option \<Rightarrow> string \<Rightarrow> payload \<Rightarrow> emission list" where
  "to_socket sock ev p = (case sock of None \<Rightarrow> [] | Some s \<Rightarrow> [(ToSocket s, ev, p)])"

definition internal_error :: "stored list \<Rightarrow> outcome" where
  "internal_error db =
     \<lparr>status = 500, body = ErrorBody ''Internal server error'', store = db, emitted = []\<rparr>"

text \<open>
  The tail shared by \<open>editMessage\<close>, \<open>deleteMessage\<close> and \<open>pinMessage\<close>: the event
  goes to the group's room, or to the socket found for the message's receiver and to the
  socket found for \<open>userId\<close>, the user who made the request. \<open>message\<close> is the saved
  document after \<open>populate\<close>, \<open>p\<close> what is sent; a throw here comes after the save.
\<close>

definition emit_direct ::
  "env \<Rightarrow> stored list \<Rightarrow> stored \<Rightarrow> string \<Rightarrow> string \<Rightarrow> payload \<Rightarrow> body \<Rightarrow> outcome" where
  "emit_direct e db message userId ev p ok =
     (case ref_toString e (receiverId message) of
        Inl x \<Rightarrow> internal_error db
      | Inr r \<Rightarrow>
          let receiverSocketId = getReceiverSocketId e (Some r);
              senderSocketId = getReceiverSocketId e (Some userId)
          in \<lparr>status = 200, body = ok, store = db,
              emitted = to_socket receiverSocketId ev p @ to_socket senderSocketId ev p\<rparr>)"

definition emit_update ::
  "env \<Rightarrow> stored list \<Rightarrow> stored \<Rightarrow> string \<Rightarrow> string \<Rightarrow> payload \<Rightarrow> body \<Rightarrow> outcome" where
  "emit_update e db message userId ev p ok =
     (case groupId message of
        Some g \<Rightarrow>
          if g \<noteq> [] then \<lparr>status = 200, body = ok, store = db, emitted = [(Room g, ev, p)]\<rparr>
          else emit_direct e db message userId ev p ok
      | None \<Rightarrow> emit_direct e db message userId ev p ok)"

text \<open>
  The permission test shared by the three: the sender, the receiver of a private message,
  or a member of the message's group. \<open>Inl\<close> when \<open>senderId.toString()\<close> throws.
\<close>

definition permitted :: "env \<Rightarrow> stored \<Rightarrow> string \<Rightarrow> js_error + bool" where
  "permitted e message userId =
     (let isPrivateMessage = ref_present (receiverId message) \<and> \<not> truthy (groupId message) in
      case ref_toString e (senderId message) of
        Inl x \<Rightarrow> Inl x
      | Inr s \<Rightarrow>
          let isSender = (s = userId);
              isReceiver = (isPrivateMessage \<and> ref_toString e (receiverId message) = Inr userId);
              isGroupMember = (case groupId message of
                                 Some g \<Rightarrow> g \<noteq> [] \<and> groupMember e g userId
                               | None \<Rightarrow> False)
          in Inr (isSender \<or> isReceiver \<or> isGroupMember))"

definition populate_parties :: "env \<Rightarrow> 'r message \<Rightarrow> 'r message" where
  "populate_parties e m =
     (let m1 = m\<lparr>senderId := populate_user e (senderId m)\<rparr>
      in if ref_present (receiverId m1) then m1\<lparr>receiverId := populate_user e (receiverId m1)\<rparr>
         else m1)"

subsection \<open>editMessage, deleteMessage, pinMessage\<close>

definition editMessage ::
  "env \<Rightarrow> stored list \<Rightarrow> string \<Rightarrow> jstring option \<Rightarrow> string \<Rightarrow> outcome" where
  "editMessage e db messageId newText userId =
     (case findById db messageId of
        None \<Rightarrow> \<lparr>status = 404, body = ErrorBody ''Message not found'', store = db, emitted = []\<rparr>
      | Some message \<Rightarrow>
          (case permitted e message userId of
             Inl x \<Rightarrow> internal_error db
           | Inr allowed \<Rightarrow>
               if \<not> allowed then
                 \<lparr>status = 403,
                  body = ErrorBody ''You don't have permission to edit this message'',
                  store = db, emitted = []\<rparr>
               else
                 let encryptedText = (case newText of
                                        Some t \<Rightarrow> if t \<noteq> [] then Some (encryptCaesar e t) else None
                                      | None \<Rightarrow> None);
                     saved = message\<lparr>msg_text := encryptedText, edited := True\<rparr>;
                     db' = save saved db;
                     populated = populate_parties e saved;
                     p = decrypt_reply e (decrypt_text e
                           (with_reply populated (populate_reply e db' (replyTo populated))))
                 in emit_update e db' populated userId ''messageEdited'' p (Doc p)))"

definition deleteMessage :: "env \<Rightarrow> stored list \<Rightarrow> string \<Rightarrow> string \<Rightarrow> outcome" where
  "deleteMessage e db messageId userId =
     (case findById db messageId of
        None \<Rightarrow> \<lparr>status = 404, body = ErrorBody ''Message not found'', store = db, emitted = []\<rparr>
      | Some message \<Rightarrow>
          (case permitted e message userId of
             Inl x \<Rightarrow> internal_error db
           | Inr allowed \<Rightarrow>
               if \<not> allowed then
                 \<lparr>status = 403,
                  body = ErrorBody ''You don't have permission to delete this message'',
                  store = db, emitted = []\<rparr>
               else
                 let saved = message\<lparr>isDeleted := True, msg_text := None\<rparr>;
                     db' = save saved db;
                     populated = populate_parties e saved;
                     p = decrypt_reply e (with_reply populated (unpopulated_reply (replyTo populated)))
                 in emit_update e db' populated userId ''messageDeleted'' p
                      (MessageBody ''Message deleted successfully'')))"

definition pinMessage :: "env \<Rightarrow> stored list \<Rightarrow> string \<Rightarrow> string \<Rightarrow> outcome" where
  "pinMessage e db messageId userId =
     (case findById db messageId of
        None \<Rightarrow> \<lparr>status = 404, body = ErrorBody ''Message not found'', store = db, emitted = []\<rparr>
      | Some message \<Rightarrow>
          (case permitted e message userId of
             Inl x \<Rightarrow> internal_error db
           | Inr allowed \<Rightarrow>
               if \<not> allowed then
                 \<lparr>status = 403,
                  body = ErrorBody ''You don't have permission to pin this message'',
                  store = db, emitted = []\<rparr>
               else
                 let saved = message\<lparr>pinned := \<not> pinned message\<rparr>;
                     db' = save saved db;
                     populated = populate_parties e saved;
                     p = decrypt_reply e (decrypt_text e
                           (with_reply populated (unpopulated_reply (replyTo populated))))
                 in emit_update e db' populated userId ''messagePinned'' p (Doc p)))"

subsection \<open>sendMessage\<close>

text \<open>
  The request: the fields of its body, the route parameter \<open>id\<close> (absent on the group
  route) and the authenticated user.
\<close>

record send_request =
  req_text :: "jstring option"
  req_image :: "string option"
  req_groupId :: "string option"
  req_sentiment :: "string option"
  req_replyTo :: "string option"
  req_selectedModel :: "string option"
  param_id :: "string option"
  user_id :: string

text \<open>
  \<open>String.prototype.trim\<close> removes from both ends the code units that are white space
  or line terminators in ECMAScript: tab, line feed, vertical tab, form feed, carriage
  return, space, no-break space (U+00A0), U+1680, U+2000 to U+200A, the line and paragraph
  separators (U+2028, U+2029), U+202F, U+205F, U+3000 and the byte order mark (U+FEFF).
\<close>

definition js_space :: "16 word \<Rightarrow> bool" where
  "js_space c =
     (c \<in> set [0x0009, 0x000A, 0x000B, 0x000C, 0x000D, 0x0020, 0x00A0, 0x1680,
               0x2028, 0x2029, 0x202F, 0x205F, 0x3000, 0xFEFF]
      \<or> (0x2000 \<le> c \<and> c \<le> 0x200A))"

definition trim :: "jstring \<Rightarrow> jstring" where
  "trim s = rev (dropWhile js_space (rev (dropWhile js_space s)))"

text \<open>\<open>text?.trim()\<close> is truthy.\<close>

definition has_text :: "jstring option \<Rightarrow> bool" where
  "has_text t = (case t of None \<Rightarrow> False | Some s \<Rightarrow> trim s \<noteq> [])"

text \<open>The two literal verdicts of the source: after a failed analysis, and without text.\<close>

definition literal_analysis :: "string \<Rightarrow> string \<Rightarrow> analysis" where
  "literal_analysis v src =
     \<lparr>a_sentiment = \<lparr>s_value = v, confidence = 0, score = 0, source = src,
                     wordAnalysis = [], enhanced = False\<rparr>,
      a_toxicity = \<lparr>isToxic = False, toxicityScore = 0, severity = ''none'', categories = []\<rparr>,
      a_sentimentOverridden = False\<rparr>"

definition or_else :: "string option \<Rightarrow> string \<Rightarrow> string" where
  "or_else a b = (case a of Some s \<Rightarrow> if s \<noteq> [] then s else b | None \<Rightarrow> b)"

definition analyse :: "env \<Rightarrow> send_request \<Rightarrow> analysis" where
  "analyse e req =
     (case req_text req of
        Some t \<Rightarrow>
          if trim t \<noteq> [] then
            (case analyzeTextToxicityWithEnhancedSentiment e t (or_else (req_selectedModel req) ''svc'') of
               Some a \<Rightarrow> a
             | None \<Rightarrow> literal_analysis (or_else (req_sentiment req) ''neutral'') ''fallback'')
          else literal_analysis ''neutral'' ''default''
      | None \<Rightarrow> literal_analysis ''neutral'' ''default'')"

text \<open>
  The image: kept as it is when larger than 10 MB (\<open>length * 0.75 / 1024 / 1024 > 10\<close>)
  or when the upload throws, else the uploaded URL.
\<close>

definition uploadedImageUrl :: "env \<Rightarrow> string option \<Rightarrow> string option" where
  "uploadedImageUrl e img =
     (case img of
        None \<Rightarrow> None
      | Some i \<Rightarrow>
          if i = [] then None
          else if 3 * length i > 41943040 then Some i
          else (case upload e i of Some url \<Rightarrow> Some url | None \<Rightarrow> Some i))"

definition or_null :: "string option \<Rightarrow> string option" where
  "or_null a = (if truthy a then a else None)"

text \<open>
  \<open>messageData\<close>, the object that \<open>sendMessage\<close> builds. The fields it does not set
  stand here with the values that \<open>created\<close> below overwrites.
\<close>

definition messageData :: "env \<Rightarrow> send_request \<Rightarrow> stored" where
  "messageData e req =
     (let analysisResult = analyse e req in
      \<lparr>mid = [],
       senderId = Raw (user_id req),
       receiverId = (if truthy (req_groupId req) then Undefined
                     else case param_id req of Some i \<Rightarrow> Raw i | None \<Rightarrow> Undefined),
       groupId = or_null (req_groupId req),
       msg_text = (case req_text req of
                     Some t \<Rightarrow> if t \<noteq> [] then Some (encryptCaesar e t) else None
                   | None \<Rightarrow> None),
       msg_image = or_null (uploadedImageUrl e (req_image req)),
       sentiment = s_value (a_sentiment analysisResult),
       sentimentAnalysis = a_sentiment analysisResult,
       sentimentOverridden = a_sentimentOverridden analysisResult,
       toxicity = a_toxicity analysisResult,
       replyTo = or_null (req_replyTo req),
       isEncrypted = True,
       edited = False,
       isDeleted = False,
       pinned = False,
       createdAt = None\<rparr>)"

text \<open>
  Modelled from the spec: the schema of a message (models/message.model.js) is not among
  the sources. By the specification's data model, \<open>new Message(messageData)\<close> followed
  by \<open>save\<close> gives the document its id and its creation time (\<open>newId\<close> and \<open>now\<close>
  here), and a new message is not edited, not deleted and not pinned.
\<close>

definition created :: "string \<Rightarrow> int \<Rightarrow> stored \<Rightarrow> stored" where
  "created newId now d =
     d\<lparr>mid := newId, edited := False, isDeleted := False, pinned := False,
       createdAt := Some now\<rparr>"

definition sendMessage :: "env \<Rightarrow> stored list \<Rightarrow> send_request \<Rightarrow> string \<Rightarrow> int \<Rightarrow> outcome" where
  "sendMessage e db req newId now =
     (if \<not> has_text (req_text req) \<and> \<not> truthy (req_image req) then
        \<lparr>status = 400, body = MessageBody ''Message must contain text or image'',
         store = db, emitted = []\<rparr>
      else
        let newMessage = created newId now (messageData e req);
            db' = db @ [newMessage];
            m1 = newMessage\<lparr>senderId := populate_user e (senderId newMessage)\<rparr>;
            m2 = (if truthy (param_id req) then m1\<lparr>receiverId := populate_user e (receiverId m1)\<rparr>
                  else m1);
            messageForSocket = decrypt_reply e (decrypt_text e
                                 (with_reply m2 (populate_reply e db' (replyTo m2))))
        in \<lparr>status = 201, body = Doc messageForSocket, store = db',
            emitted =
              (case groupId newMessage of
                 Some g \<Rightarrow> [(Room g, ''newMessage'', messageForSocket)]
               | None \<Rightarrow>
                   to_socket (getReceiverSocketId e (param_id req)) ''newMessage'' messageForSocket
                   @ to_socket (getReceiverSocketId e (Some (user_id req))) ''newMessage''
                       messageForSocket)\<rparr>)"

subsection \<open>getMessages\<close>











subsection \<open>A conversation's messages, in the words of the specification\<close>




section \<open>Concrete inputs\<close>

text \<open>
  Texts, as code units: \<open>hi\<close>, \<open>yo\<close>, \<open>hello\<close>, \<open>there\<close>, \<open>all\<close>, two
  spaces, and a single no-break space.
\<close>

definition t_hi :: jstring where "t_hi = [0x68, 0x69]"

definition t_yo :: jstring where "t_yo = [0x79, 0x6F]"

definition t_hello :: jstring where "t_hello = [0x68, 0x65, 0x6C, 0x6C, 0x6F]"

definition t_there :: jstring where "t_there = [0x74, 0x68, 0x65, 0x72, 0x65]"

definition t_all :: jstring where "t_all = [0x61, 0x6C, 0x6C]"

definition t_blank :: jstring where "t_blank = [0x20, 0x20]"

definition t_nbsp :: jstring where "t_nbsp = [0xA0]"

text \<open>
  A message with the given id, sender, receiver, group, text, creation time and
  \<open>replyTo\<close>, and a client of user \<open>me\<close> with a selection, a socket and no listener yet.
\<close>

definition msg ::
  "string \<Rightarrow> uref \<Rightarrow> uref \<Rightarrow> string option \<Rightarrow> jstring option \<Rightarrow> int \<Rightarrow> 'r \<Rightarrow> 'r message" where
  "msg i s r g t ts rp =
     \<lparr>mid = i, senderId = s, receiverId = r, groupId = g, msg_text = t, msg_image = None,
      sentiment = ''neutral'',
      sentimentAnalysis = a_sentiment (literal_analysis ''neutral'' ''default''),
      sentimentOverridden = False,
      toxicity = a_toxicity (literal_analysis ''neutral'' ''default''),
      replyTo = rp, isEncrypted = True, edited = False, isDeleted = False, pinned = False,
      createdAt = Some ts\<rparr>"

definition idle_client :: "'r message list \<Rightarrow> selected \<Rightarrow> 'r client" where
  "idle_client ms sel =
     \<lparr>messages = ms, selectedUser = Some sel, authUser = Some ''me'', socket = Some 0,
      messageHandler_ref = None, messageDeletedHandler_ref = None,
      messageEditedHandler_ref = None, messagePinnedHandler_ref = None,
      currentSocket = None, listeners = (\<lambda>s. []), fresh = 0\<rparr>"

definition with_bob :: selected where
  "with_bob = \<lparr>sel_id = ''bob'', sel_groupId = None\<rparr>"

definition from_bob :: "string \<Rightarrow> jstring \<Rightarrow> int \<Rightarrow> unit message" where
  "from_bob i t ts = msg i (Populated ''bob'') (Populated ''me'') None (Some t) ts ()"

definition in_team :: "string \<Rightarrow> jstring \<Rightarrow> int \<Rightarrow> unit message" where
  "in_team i t ts = msg i (Populated ''carol'') Undefined (Some ''team'') (Some t) ts ()"


definition in_team_chat :: selected where
  "in_team_chat = \<lparr>sel_id = ''team'', sel_groupId = Some ''team''\<rparr>"

text \<open>
  A server environment for the examples. \<open>alice\<close> and \<open>bob\<close> are connected; the
  account of \<open>zed\<close> is gone and every other referenced user exists; \<open>alice\<close> and
  \<open>carol\<close> are the members of group \<open>team\<close>; \<open>bob\<close> reacted to message \<open>m1\<close> and
  \<open>zed\<close> to message \<open>m4\<close>; \<open>toString()\<close> of a populated user document prints the
  document, not its id; the classifier and the media store are down; and the cipher adds
  4 to every code unit.
\<close>

definition shift :: "16 word \<Rightarrow> 16 word \<Rightarrow> 16 word" where
  "shift k c = c + k"

definition offline_env :: env where
  "offline_env =
     \<lparr>getReceiverSocketId =
        (\<lambda>k. if k = Some ''alice'' then Some ''sock_a''
             else if k = Some ''bob'' then Some ''sock_b'' else None),
      groupMember = (\<lambda>g u. g = ''team'' \<and> (u = ''alice'' \<or> u = ''carol'')),
      userExists = (\<lambda>i. i \<noteq> ''zed''),
      findReactions =
        (\<lambda>i. if i = ''m1'' then [(''like'', ''bob'')]
             else if i = ''m4'' then [(''like'', ''zed'')] else []),
      docString = (\<lambda>i. ''{ _id: '' @ i @ '' }''),
      encryptCaesar = map (shift 4),
      decryptCaesar = map (shift (- 4)),
      analyzeTextToxicityWithEnhancedSentiment = (\<lambda>t model. None),
      upload = (\<lambda>i. None)\<rparr>"

definition alice_to_bob :: stored where
  "alice_to_bob = msg ''m1'' (Raw ''alice'') (Raw ''bob'') None (Some (map (shift 4) t_hi)) 10 None"





definition request ::
  "jstring option \<Rightarrow> string option \<Rightarrow> string option \<Rightarrow> string option \<Rightarrow> string \<Rightarrow> send_request" where
  "request t img snt to from =
     \<lparr>req_text = t, req_image = img, req_groupId = None, req_sentiment = snt,
      req_replyTo = None, req_selectedModel = None, param_id = to, user_id = from\<rparr>"

section \<open>The reconciliation store under edited, deleted and pinned events\<close>

lemma replace_twice:
  "map (\<lambda>x. if mid x = mid m then m else x) (map (\<lambda>x. if mid x = mid m then m else x) xs)
     = map (\<lambda>x. if mid x = mid m then m else x) xs"
  by (induction xs) auto

lemma replace_absent:
  "mid m \<notin> mid ` set xs \<Longrightarrow> map (\<lambda>x. if mid x = mid m then m else x) xs = xs"
  by (induction xs) auto

text \<open>
  C4. An \<open>edited\<close>, \<open>deleted\<close> or \<open>pinned\<close> event changes nothing of the store but
  its list, keeps the list's length, and puts the incoming message at exactly the
  positions whose entry has the incoming id, every other entry staying as it was.
  Applying the event a second time changes nothing more, and an event whose id no entry
  has leaves the store as it was.
\<close>

theorem update_events_replace_by_id:
  fixes c :: "'r client" and m :: "'r message"
  assumes h: "h = messageEditedHandler \<or> h = messageDeletedHandler \<or> h = messagePinnedHandler"
  shows "length (messages (h c m)) = length (messages c) \<and>
         (\<forall>i < length (messages c).
            messages (h c m) ! i = (if mid (messages c ! i) = mid m then m else messages c ! i)) \<and>
         h c m = c\<lparr>messages := messages (h c m)\<rparr> \<and>
         h (h c m) m = h c m \<and>
         (mid m \<notin> mid ` set (messages c) \<longrightarrow> h c m = c)"
proof -
  let ?r = "\<lambda>xs. map (\<lambda>x. if mid x = mid m then m else x) xs"
  have eq: "h c m = c\<lparr>messages := ?r (messages c)\<rparr>" for c :: "'r client"
    using h by (auto simp: messageEditedHandler_def messageDeletedHandler_def messagePinnedHandler_def)
  have a: "length (messages (h c m)) = length (messages c)" by (simp add: eq)
  have b: "\<forall>i < length (messages c).
            messages (h c m) ! i = (if mid (messages c ! i) = mid m then m else messages c ! i)"
    by (simp add: eq)
  have d: "h (h c m) m = h c m" by (simp add: eq replace_twice)
  have e: "mid m \<notin> mid ` set (messages c) \<longrightarrow> h c m = c"
    by (simp add: eq replace_absent)
  have f: "h c m = c\<lparr>messages := messages (h c m)\<rparr>" by (simp add: eq)
  from a b d e f show ?thesis by blast
qed

theorem update_events_replace_by_id_witness:
  "messages (messageEditedHandler
      (idle_client [from_bob ''m1'' t_hi 10, from_bob ''m2'' t_there 20] with_bob)
      (from_bob ''m1'' t_hello 10))
     = [from_bob ''m1'' t_hello 10, from_bob ''m2'' t_there 20] \<and>
   messageEditedHandler
     (messageEditedHandler
        (idle_client [from_bob ''m1'' t_hi 10, from_bob ''m2'' t_there 20] with_bob)
        (from_bob ''m1'' t_hello 10))
     (from_bob ''m1'' t_hello 10)
     = messageEditedHandler
        (idle_client [from_bob ''m1'' t_hi 10, from_bob ''m2'' t_there 20] with_bob)
        (from_bob ''m1'' t_hello 10) \<and>
   messageEditedHandler
     (idle_client [from_bob ''m1'' t_hi 10, from_bob ''m2'' t_there 20] with_bob)
     (from_bob ''m3'' t_hello 30)
     = idle_client [from_bob ''m1'' t_hi 10, from_bob ''m2'' t_there 20] with_bob"
proof -
  let ?c = "idle_client [from_bob ''m1'' t_hi 10, from_bob ''m2'' t_there 20] with_bob"
  have ids: "mid (from_bob i t ts) = i" for i t ts
    by (simp add: from_bob_def msg_def)
  have ms: "messages ?c = [from_bob ''m1'' t_hi 10, from_bob ''m2'' t_there 20]"
    by (simp add: idle_client_def)
  have one: "messages (messageEditedHandler ?c (from_bob ''m1'' t_hello 10))
               = [from_bob ''m1'' t_hello 10, from_bob ''m2'' t_there 20]"
    by (simp add: messageEditedHandler_def ms ids)
  have absent: "mid (from_bob ''m3'' t_hello 30) \<notin> mid ` set (messages ?c)"
    by (simp add: ms ids)
  from update_events_replace_by_id [of messageEditedHandler ?c "from_bob ''m1'' t_hello 10"]
  have twice: "messageEditedHandler (messageEditedHandler ?c (from_bob ''m1'' t_hello 10))
                 (from_bob ''m1'' t_hello 10)
               = messageEditedHandler ?c (from_bob ''m1'' t_hello 10)"
    by simp
  from update_events_replace_by_id [of messageEditedHandler ?c "from_bob ''m3'' t_hello 30"] absent
  have none: "messageEditedHandler ?c (from_bob ''m3'' t_hello 30) = ?c"
    by blast
  from one twice none show ?thesis by blast
qed

section \<open>The reconciliation store under created events\<close>

lemma isRelevantDM_spec:
  assumes "isRelevantDM sel au m = Inr True"
  shows "\<not> truthy (sel_groupId sel) \<and> spec_relevant (Direct au (sel_id sel)) m"
  using assms
  by (cases "senderId m"; cases "receiverId m")
     (auto simp: isRelevantDM_def split: if_splits)

lemma deliver_created_cases:
  "deliver_created c m = c \<or>
   (deliver_created c m = c\<lparr>messages := messages c @ [m]\<rparr> \<and> mid m \<notin> mid ` set (messages c) \<and>
    (\<exists>C. active_conversation c = Some C \<and> spec_relevant C m))"
proof (cases "selectedUser c")
  case None
  then show ?thesis by (simp add: deliver_created_def messageHandler_def)
next
  case (Some sel)
  show ?thesis
  proof (cases "authUser c")
    case None
    with Some show ?thesis by (simp add: deliver_created_def messageHandler_def)
  next
    case (Some au)
    show ?thesis
    proof (cases "isRelevantDM sel au m")
      case (Inl e)
      with Some \<open>selectedUser c = Some sel\<close> show ?thesis
        by (simp add: deliver_created_def messageHandler_def)
    next
      case (Inr dm)
      have dmrel: "dm \<Longrightarrow> active_conversation c = Some (Direct au (sel_id sel)) \<and>
                     spec_relevant (Direct au (sel_id sel)) m"
        using isRelevantDM_spec[of sel au m] Inr Some \<open>selectedUser c = Some sel\<close>
        by (auto simp: active_conversation_def truthy_def split: option.splits)
      have grel: "isRelevantGroup sel m \<Longrightarrow> \<exists>g. active_conversation c = Some (Group g) \<and>
                     spec_relevant (Group g) m"
        using Some \<open>selectedUser c = Some sel\<close>
        by (auto simp: isRelevantGroup_def active_conversation_def truthy_def split: option.splits)
      show ?thesis
        using Inr Some \<open>selectedUser c = Some sel\<close> dmrel grel
        by (auto simp: deliver_created_def messageHandler_def list_ex_iff)
    qed
  qed
qed

lemma deliver_created_keeps_selection:
  "selectedUser (deliver_created c m) = selectedUser c \<and> authUser (deliver_created c m) = authUser c"
  using deliver_created_cases[of c m] by auto

lemma active_conversation_deliver:
  "active_conversation (deliver_created c m) = active_conversation c"
  using deliver_created_keeps_selection[of c m] by (simp add: active_conversation_def)

lemma deliver_created_distinct:
  "distinct (map mid (messages c)) \<Longrightarrow> distinct (map mid (messages (deliver_created c m)))"
  using deliver_created_cases[of c m] by auto

lemma foldl_deliver_distinct:
  "distinct (map mid (messages c)) \<Longrightarrow> distinct (map mid (messages (foldl deliver_created c evs)))"
  by (induction evs arbitrary: c) (auto simp: deliver_created_distinct)

lemma foldl_deliver_only_relevant:
  "active_conversation c = Some C \<Longrightarrow> x \<in> set (messages (foldl deliver_created c evs)) \<Longrightarrow>
   x \<in> set (messages c) \<or> (x \<in> set evs \<and> spec_relevant C x)"
proof (induction evs arbitrary: c)
  case Nil
  then show ?case by simp
next
  case (Cons m evs)
  have ac: "active_conversation (deliver_created c m) = Some C"
    using Cons.prems(1) by (simp add: active_conversation_deliver)
  from Cons.IH[OF ac] Cons.prems(2)
  have "x \<in> set (messages (deliver_created c m)) \<or> (x \<in> set evs \<and> spec_relevant C x)"
    by simp
  then show ?case
    using deliver_created_cases[of c m] Cons.prems(1) by auto
qed

text \<open>
  C2. Whatever \<open>created\<close> events reach a store, in whatever order, a list without two
  entries of one id stays so. An event whose message is not relevant to the active
  conversation (it does not carry the conversation's group id, and is not a direct
  message between the two users of the conversation's pair) leaves the store as it was;
  and every entry of the resulting list was in the list before or is a relevant event.
\<close>

theorem created_events_no_duplicates:
  "(distinct (map mid (messages c)) \<longrightarrow>
      distinct (map mid (messages (foldl deliver_created c evs)))) \<and>
   (active_conversation c = Some C \<and> \<not> spec_relevant C m \<longrightarrow> deliver_created c m = c) \<and>
   (active_conversation c = Some C \<longrightarrow>
      (\<forall>x \<in> set (messages (foldl deliver_created c evs)).
         x \<in> set (messages c) \<or> (x \<in> set evs \<and> spec_relevant C x)))"
proof -
  have "active_conversation c = Some C \<and> \<not> spec_relevant C m \<longrightarrow> deliver_created c m = c"
    using deliver_created_cases[of c m] by auto
  then show ?thesis
    using foldl_deliver_distinct[of c evs] foldl_deliver_only_relevant[of c C _ evs] by blast
qed

theorem created_events_no_duplicates_witness:
  "messages (foldl deliver_created (idle_client [] with_bob)
      [from_bob ''m1'' t_hi 10, in_team ''g1'' t_all 15, from_bob ''m1'' t_hi 10])
     = [from_bob ''m1'' t_hi 10] \<and>
   distinct (map mid (messages (foldl deliver_created (idle_client [] with_bob)
      [from_bob ''m1'' t_hi 10, in_team ''g1'' t_all 15, from_bob ''m1'' t_hi 10]))) \<and>
   deliver_created (idle_client [from_bob ''m1'' t_hi 10] with_bob) (in_team ''g1'' t_all 15)
     = idle_client [from_bob ''m1'' t_hi 10] with_bob"
proof -
  let ?c0 = "idle_client [] with_bob :: unit client"
  let ?c1 = "idle_client [from_bob ''m1'' t_hi 10] with_bob"
  let ?evs = "[from_bob ''m1'' t_hi 10, in_team ''g1'' t_all 15, from_bob ''m1'' t_hi 10]"
  have e1: "deliver_created ?c0 (from_bob ''m1'' t_hi 10) = ?c1"
    by (simp add: deliver_created_def messageHandler_def idle_client_def with_bob_def from_bob_def
         msg_def isRelevantDM_def isRelevantGroup_def truthy_def)
  have e3: "deliver_created ?c1 (from_bob ''m1'' t_hi 10) = ?c1"
    by (simp add: deliver_created_def messageHandler_def idle_client_def with_bob_def from_bob_def
         msg_def isRelevantDM_def isRelevantGroup_def truthy_def)
  have conv: "active_conversation ?c1 = Some (Direct ''me'' ''bob'')"
    by (simp add: active_conversation_def idle_client_def with_bob_def)
  have irrelevant: "\<not> spec_relevant (Direct ''me'' ''bob'') (in_team ''g1'' t_all 15)"
    by (simp add: in_team_def msg_def)
  have start: "distinct (map mid (messages ?c0))"
    by (simp add: idle_client_def)
  from created_events_no_duplicates
         [of ?c1 "[]" "Direct ''me'' ''bob''" "in_team ''g1'' t_all 15"] conv irrelevant
  have e2: "deliver_created ?c1 (in_team ''g1'' t_all 15) = ?c1"
    by blast
  from created_events_no_duplicates [of ?c0 ?evs] start
  have d: "distinct (map mid (messages (foldl deliver_created ?c0 ?evs)))"
    by blast
  have "foldl deliver_created ?c0 ?evs = ?c1"
    by (simp add: e1 e2 e3)
  then have "messages (foldl deliver_created ?c0 ?evs) = [from_bob ''m1'' t_hi 10]"
    by (simp add: idle_client_def)
  with d e2 show ?thesis by blast
qed


section \<open>The recency index under created events\<close>











section \<open>Binding and rebinding the listeners\<close>

lemma run_listeners_own:
  "run_listeners ls ev m c = run_listeners (filter own_listener ls) ev m c"
proof (induction ls arbitrary: c)
  case Nil
  then show ?case by simp
next
  case (Cons a ls)
  obtain e f where a: "a = (e, f)" by (cases a)
  show ?case using Cons.IH by (cases f) (auto simp: a split: sum.splits)
qed

lemma kind_cases:
  "kind f = ''newMessage'' \<Longrightarrow> \<exists>n. f = NewMessageFn n"
  "kind f = ''messageDeleted'' \<Longrightarrow> \<exists>n. f = DeletedFn n"
  "kind f = ''messageEdited'' \<Longrightarrow> \<exists>n. f = EditedFn n"
  "kind f = ''messagePinned'' \<Longrightarrow> \<exists>n. f = PinnedFn n"
  by (cases f; simp)+

lemma one_listener_set_iff:
  "one_listener_set c s \<longleftrightarrow>
     (\<exists>a b d e. currentSocket c = Some s \<and>
        messageHandler_ref c = Some (NewMessageFn a) \<and>
        messageDeletedHandler_ref c = Some (DeletedFn b) \<and>
        messageEditedHandler_ref c = Some (EditedFn d) \<and>
        messagePinnedHandler_ref c = Some (PinnedFn e) \<and>
        filter own_listener (listeners c s) =
          [(''newMessage'', NewMessageFn a), (''messageDeleted'', DeletedFn b),
           (''messageEdited'', EditedFn d), (''messagePinned'', PinnedFn e)])"
  (is "?L \<longleftrightarrow> ?R")
proof
  assume ?R
  then show ?L by (auto simp: one_listener_set_def)
next
  assume L: ?L
  let ?own = "filter own_listener (listeners c s)"
  from L have cs: "currentSocket c = Some s" by (simp add: one_listener_set_def)
  from L have m: "map (\<lambda>(ev, f). (ev, kind f, Some f)) ?own =
        [(''newMessage'', ''newMessage'', messageHandler_ref c),
         (''messageDeleted'', ''messageDeleted'', messageDeletedHandler_ref c),
         (''messageEdited'', ''messageEdited'', messageEditedHandler_ref c),
         (''messagePinned'', ''messagePinned'', messagePinnedHandler_ref c)]"
    by (simp add: one_listener_set_def)
  then obtain x1 x2 x3 x4 where own: "?own = [x1, x2, x3, x4]"
    by (auto simp: map_eq_Cons_conv)
  obtain e1 f1 e2 f2 e3 f3 e4 f4 where x: "x1 = (e1, f1)" "x2 = (e2, f2)" "x3 = (e3, f3)" "x4 = (e4, f4)"
    by (cases x1; cases x2; cases x3; cases x4) auto
  from m own x have
    k: "kind f1 = ''newMessage''" "kind f2 = ''messageDeleted''" "kind f3 = ''messageEdited''"
       "kind f4 = ''messagePinned''" and
    ev: "e1 = ''newMessage''" "e2 = ''messageDeleted''" "e3 = ''messageEdited''" "e4 = ''messagePinned''" and
    refs: "messageHandler_ref c = Some f1" "messageDeletedHandler_ref c = Some f2"
          "messageEditedHandler_ref c = Some f3" "messagePinnedHandler_ref c = Some f4"
    by auto
  from k obtain a b d e where
    "f1 = NewMessageFn a" "f2 = DeletedFn b" "f3 = EditedFn d" "f4 = PinnedFn e"
    using kind_cases(1)[of f1] kind_cases(2)[of f2] kind_cases(3)[of f3] kind_cases(4)[of f4]
    by auto
  with cs own x ev refs show ?R by auto
qed

lemma subscribe_when_bound:
  assumes "one_listener_set c s" "socket c = Some s"
  shows "subscribeToMessages c = c"
  using assms
  by (auto simp: subscribeToMessages_def one_listener_set_iff split: option.splits)

lemma setSelectedUser_bound:
  "one_listener_set (setSelectedUser u c) s = one_listener_set c s"
  by (simp add: one_listener_set_def setSelectedUser_def)

lemma unsubscribe_bound:
  assumes "one_listener_set c s"
  shows "filter own_listener (listeners (unsubscribeFromMessages c) s) = [] \<and>
         currentSocket (unsubscribeFromMessages c) = None \<and>
         messageHandler_ref (unsubscribeFromMessages c) = None \<and>
         socket (unsubscribeFromMessages c) = socket c \<and>
         selectedUser (unsubscribeFromMessages c) = selectedUser c \<and>
         messages (unsubscribeFromMessages c) = messages c"
proof -
  from assms obtain a b d e where
    cs: "currentSocket c = Some s" and
    refs: "messageHandler_ref c = Some (NewMessageFn a)"
        "messageDeletedHandler_ref c = Some (DeletedFn b)"
        "messageEditedHandler_ref c = Some (EditedFn d)"
        "messagePinnedHandler_ref c = Some (PinnedFn e)" and
    own: "filter own_listener (listeners c s) =
          [(''newMessage'', NewMessageFn a), (''messageDeleted'', DeletedFn b),
           (''messageEdited'', EditedFn d), (''messagePinned'', PinnedFn e)]"
    by (auto simp: one_listener_set_iff)
  show ?thesis
    by (simp add: unsubscribeFromMessages_def cs off_handlers_def refs socket_off_def
        clear_handlers_def filter_remove1 own)
qed

lemma subscribe_fresh:
  assumes "filter own_listener (listeners c s) = []" "currentSocket c = None"
    "messageHandler_ref c = None" "socket c = Some s" "selectedUser c \<noteq> None"
  shows "one_listener_set (subscribeToMessages c) s"
  using assms
  by (auto simp: subscribeToMessages_def one_listener_set_def register_handlers_def socket_on_def
      Let_def split: option.splits)


lemma emit_when_bound:
  assumes "one_listener_set c s"
  shows "socket_emit s ''newMessage'' m c = messageHandler c m"
    and "socket_emit s ''messageDeleted'' m c = Inr (messageDeletedHandler c m)"
    and "socket_emit s ''messageEdited'' m c = Inr (messageEditedHandler c m)"
    and "socket_emit s ''messagePinned'' m c = Inr (messagePinnedHandler c m)"
proof -
  from assms obtain a b d e where
    own: "filter own_listener (listeners c s) =
          [(''newMessage'', NewMessageFn a), (''messageDeleted'', DeletedFn b),
           (''messageEdited'', EditedFn d), (''messagePinned'', PinnedFn e)]"
    by (auto simp: one_listener_set_iff)
  have run: "socket_emit s ev m c = run_listeners (filter own_listener (listeners c s)) ev m c" for ev
    unfolding socket_emit_def by (rule run_listeners_own)
  show "socket_emit s ''newMessage'' m c = messageHandler c m"
    by (cases "messageHandler c m") (simp_all add: run own)
  show "socket_emit s ''messageDeleted'' m c = Inr (messageDeletedHandler c m)"
    by (simp add: run own)
  show "socket_emit s ''messageEdited'' m c = Inr (messageEditedHandler c m)"
    by (simp add: run own)
  show "socket_emit s ''messagePinned'' m c = Inr (messagePinnedHandler c m)"
    by (simp add: run own)
qed

lemma resubscribe_after_teardown:
  assumes "one_listener_set c s" "socket c = Some s"
  shows "one_listener_set (subscribeToMessages (setSelectedUser (Some u) (unsubscribeFromMessages c))) s"
    and "messages (subscribeToMessages (setSelectedUser (Some u) (unsubscribeFromMessages c))) = messages c"
    and "socket (subscribeToMessages (setSelectedUser (Some u) (unsubscribeFromMessages c))) = Some s"
proof -
  let ?c = "setSelectedUser (Some u) (unsubscribeFromMessages c)"
  from unsubscribe_bound[OF assms(1)] assms(2)
  have pre: "filter own_listener (listeners ?c s) = []" "currentSocket ?c = None"
    "messageHandler_ref ?c = None" "socket ?c = Some s" "selectedUser ?c \<noteq> None"
    "messages ?c = messages c"
    by (simp_all add: setSelectedUser_def)
  show "one_listener_set (subscribeToMessages ?c) s"
    using pre by (intro subscribe_fresh) simp_all
  show "messages (subscribeToMessages ?c) = messages c"
    using pre
    by (simp add: subscribeToMessages_def register_handlers_def socket_on_def Let_def)
  show "socket (subscribeToMessages ?c) = Some s"
    using pre
    by (simp add: subscribeToMessages_def register_handlers_def socket_on_def Let_def)
qed

text \<open>
  C8. A store has one set of four listeners bound to socket \<open>s\<close> and shows conversation
  \<open>A\<close>. The selection goes to \<open>B\<close> and back to \<open>A\<close> on the same socket, with
  \<open>subscribeToMessages\<close> called after each switch. Then one set of four is bound after
  each call, the store ends exactly as it started, and an event of each of the four names
  arriving on \<open>s\<close> runs its handler once. The same holds when each switch first calls
  \<open>unsubscribeFromMessages\<close>: the old four listeners are removed and four new ones bound.
\<close>

theorem rebind_keeps_one_listener_set:
  assumes bound: "one_listener_set c0 s" and sock: "socket c0 = Some s"
    and sel: "selectedUser c0 = Some A"
  shows
    "(let c1 = subscribeToMessages (setSelectedUser (Some B) c0);
          c2 = subscribeToMessages (setSelectedUser (Some A) c1)
      in one_listener_set c1 s \<and> one_listener_set c2 s \<and> c2 = c0 \<and>
         socket_emit s ''newMessage'' m c2 = messageHandler c2 m \<and>
         socket_emit s ''messageEdited'' m c2 = Inr (messageEditedHandler c2 m) \<and>
         socket_emit s ''messageDeleted'' m c2 = Inr (messageDeletedHandler c2 m) \<and>
         socket_emit s ''messagePinned'' m c2 = Inr (messagePinnedHandler c2 m)) \<and>
     (let d1 = subscribeToMessages (setSelectedUser (Some B) (unsubscribeFromMessages c0));
          d2 = subscribeToMessages (setSelectedUser (Some A) (unsubscribeFromMessages d1))
      in one_listener_set d1 s \<and> one_listener_set d2 s \<and> messages d2 = messages c0 \<and>
         socket_emit s ''newMessage'' m d2 = messageHandler d2 m \<and>
         socket_emit s ''messageEdited'' m d2 = Inr (messageEditedHandler d2 m) \<and>
         socket_emit s ''messageDeleted'' m d2 = Inr (messageDeletedHandler d2 m) \<and>
         socket_emit s ''messagePinned'' m d2 = Inr (messagePinnedHandler d2 m))"
proof -
  let ?b = "setSelectedUser (Some B) c0"
  have b1: "one_listener_set ?b s" "socket ?b = Some s"
    using bound sock by (simp_all add: setSelectedUser_bound) (simp add: setSelectedUser_def)
  then have c1: "subscribeToMessages ?b = ?b" by (rule subscribe_when_bound)
  let ?a = "setSelectedUser (Some A) ?b"
  have a_eq: "?a = c0" using sel by (simp add: setSelectedUser_def)
  have c2: "subscribeToMessages ?a = c0"
    using subscribe_when_bound[OF bound sock] a_eq by simp
  have first: "let c1 = subscribeToMessages ?b; c2 = subscribeToMessages (setSelectedUser (Some A) c1)
      in one_listener_set c1 s \<and> one_listener_set c2 s \<and> c2 = c0 \<and>
         socket_emit s ''newMessage'' m c2 = messageHandler c2 m \<and>
         socket_emit s ''messageEdited'' m c2 = Inr (messageEditedHandler c2 m) \<and>
         socket_emit s ''messageDeleted'' m c2 = Inr (messageDeletedHandler c2 m) \<and>
         socket_emit s ''messagePinned'' m c2 = Inr (messagePinnedHandler c2 m)"
    unfolding Let_def c1 c2 using b1(1) bound emit_when_bound[OF bound, of m] by simp
  let ?d1 = "subscribeToMessages (setSelectedUser (Some B) (unsubscribeFromMessages c0))"
  let ?d2 = "subscribeToMessages (setSelectedUser (Some A) (unsubscribeFromMessages ?d1))"
  have d1: "one_listener_set ?d1 s" "messages ?d1 = messages c0" "socket ?d1 = Some s"
    using resubscribe_after_teardown[OF bound sock, of B] by simp_all
  have d2: "one_listener_set ?d2 s" "messages ?d2 = messages c0"
    using resubscribe_after_teardown[OF d1(1) d1(3), of A] d1(2) by simp_all
  have second: "let d1 = ?d1; d2 = subscribeToMessages (setSelectedUser (Some A) (unsubscribeFromMessages d1))
      in one_listener_set d1 s \<and> one_listener_set d2 s \<and> messages d2 = messages c0 \<and>
         socket_emit s ''newMessage'' m d2 = messageHandler d2 m \<and>
         socket_emit s ''messageEdited'' m d2 = Inr (messageEditedHandler d2 m) \<and>
         socket_emit s ''messageDeleted'' m d2 = Inr (messageDeletedHandler d2 m) \<and>
         socket_emit s ''messagePinned'' m d2 = Inr (messagePinnedHandler d2 m)"
    unfolding Let_def using d1(1) d2 emit_when_bound[OF d2(1), of m] by simp
  from first second show ?thesis by blast
qed

theorem rebind_keeps_one_listener_set_witness:
  "one_listener_set (subscribeToMessages (idle_client ([] :: unit message list) with_bob)) 0 \<and>
   subscribeToMessages (setSelectedUser (Some with_bob)
     (subscribeToMessages (setSelectedUser (Some in_team_chat)
        (subscribeToMessages (idle_client ([] :: unit message list) with_bob)))))
     = subscribeToMessages (idle_client [] with_bob) \<and>
   listeners (subscribeToMessages (idle_client ([] :: unit message list) with_bob)) 0
     = [(''newMessage'', NewMessageFn 0), (''messageDeleted'', DeletedFn 0),
        (''messageEdited'', EditedFn 0), (''messagePinned'', PinnedFn 0)] \<and>
   listeners (subscribeToMessages (setSelectedUser (Some with_bob) (unsubscribeFromMessages
     (subscribeToMessages (setSelectedUser (Some in_team_chat) (unsubscribeFromMessages
        (subscribeToMessages (idle_client ([] :: unit message list) with_bob)))))))) 0
     = [(''newMessage'', NewMessageFn 2), (''messageDeleted'', DeletedFn 2),
        (''messageEdited'', EditedFn 2), (''messagePinned'', PinnedFn 2)]"
proof -
  let ?c0 = "subscribeToMessages (idle_client ([] :: unit message list) with_bob)"
  have c0: "?c0 = \<lparr>messages = [], selectedUser = Some with_bob, authUser = Some ''me'', socket = Some 0,
      messageHandler_ref = Some (NewMessageFn 0), messageDeletedHandler_ref = Some (DeletedFn 0),
      messageEditedHandler_ref = Some (EditedFn 0), messagePinnedHandler_ref = Some (PinnedFn 0),
      currentSocket = Some 0,
      listeners = (\<lambda>s. [])(0 := [(''newMessage'', NewMessageFn 0), (''messageDeleted'', DeletedFn 0),
        (''messageEdited'', EditedFn 0), (''messagePinned'', PinnedFn 0)]),
      fresh = Suc 0\<rparr>"
    by (simp add: subscribeToMessages_def idle_client_def register_handlers_def socket_on_def Let_def)
  have bound: "one_listener_set ?c0 0"
    by (simp add: c0 one_listener_set_def)
  have sock: "socket ?c0 = Some 0" by (simp add: c0)
  have sel: "selectedUser ?c0 = Some with_bob" by (simp add: c0)
  from rebind_keeps_one_listener_set [OF bound sock sel, of in_team_chat]
  have again: "subscribeToMessages (setSelectedUser (Some with_bob)
     (subscribeToMessages (setSelectedUser (Some in_team_chat) ?c0))) = ?c0"
    by (simp add: Let_def)
  have l0: "listeners ?c0 0 = [(''newMessage'', NewMessageFn 0), (''messageDeleted'', DeletedFn 0),
        (''messageEdited'', EditedFn 0), (''messagePinned'', PinnedFn 0)]"
    by (simp add: c0)
  have l2: "listeners (subscribeToMessages (setSelectedUser (Some with_bob) (unsubscribeFromMessages
     (subscribeToMessages (setSelectedUser (Some in_team_chat) (unsubscribeFromMessages ?c0)))))) 0
     = [(''newMessage'', NewMessageFn 2), (''messageDeleted'', DeletedFn 2),
        (''messageEdited'', EditedFn 2), (''messagePinned'', PinnedFn 2)]"
    unfolding c0
    by (simp add: subscribeToMessages_def unsubscribeFromMessages_def setSelectedUser_def
        register_handlers_def socket_on_def socket_off_def off_handlers_def clear_handlers_def
        Let_def numeral_2_eq_2)
  from bound again l0 l2 show ?thesis by blast
qed


section \<open>The collection, and what leaves the server\<close>

lemma findById_save_same:
  "findById db (mid m') = Some m \<Longrightarrow> findById (save m' db) (mid m') = Some m'"
  by (induction db) (auto simp: findById_def)

lemma findById_save_other:
  "j \<noteq> mid m' \<Longrightarrow> findById (save m' db) j = findById db j"
  by (induction db) (auto simp: findById_def)

lemma findById_mid: "findById db i = Some m \<Longrightarrow> mid m = i"
  by (induction db) (auto simp: findById_def split: if_splits)

lemma store_emit_update: "store (emit_update e db m u ev p ok) = db"
  by (auto simp: emit_update_def emit_direct_def internal_error_def Let_def
      split: option.splits sum.splits)




lemma decrypt_text_keeps:
  "mid (decrypt_text e m) = mid m" "sentiment (decrypt_text e m) = sentiment m"
  "edited (decrypt_text e m) = edited m" "isDeleted (decrypt_text e m) = isDeleted m"
  "pinned (decrypt_text e m) = pinned m" "replyTo (decrypt_text e m) = replyTo m"
  "isEncrypted (decrypt_text e m) = isEncrypted m" "createdAt (decrypt_text e m) = createdAt m"
  by (simp_all add: decrypt_text_def split: option.splits)




lemma decrypt_reply_keeps:
  "mid (decrypt_reply e p) = mid p" "sentiment (decrypt_reply e p) = sentiment p"
  "edited (decrypt_reply e p) = edited p" "isDeleted (decrypt_reply e p) = isDeleted p"
  "pinned (decrypt_reply e p) = pinned p" "msg_text (decrypt_reply e p) = msg_text p"
  "isEncrypted (decrypt_reply e p) = isEncrypted p" "createdAt (decrypt_reply e p) = createdAt p"
  by (simp_all add: decrypt_reply_def split: reply.splits)

lemma with_reply_keeps:
  "mid (with_reply m r) = mid m" "sentiment (with_reply m r) = sentiment m"
  "edited (with_reply m r) = edited m" "isDeleted (with_reply m r) = isDeleted m"
  "pinned (with_reply m r) = pinned m" "msg_text (with_reply m r) = msg_text m"
  "isEncrypted (with_reply m r) = isEncrypted m" "createdAt (with_reply m r) = createdAt m"
  "replyTo (with_reply m r) = r"
  by (simp_all add: with_reply_def)



section \<open>deleteMessage: the tombstone\<close>

lemma store_deleteMessage:
  assumes "findById db i = Some m" "permitted e m u = Inr True"
  shows "store (deleteMessage e db i u) = save (m\<lparr>isDeleted := True, msg_text := None\<rparr>) db"
  using assms by (simp add: deleteMessage_def Let_def store_emit_update)

text \<open>
  C5. When \<open>deleteMessage\<close> is called on an existing message by a user who passes the
  permission test, the stored message afterwards is the old one with \<open>isDeleted\<close> true
  and \<open>text\<close> null: the decryption step finds nothing to reveal, and the image
  reference, the sentiment, its analysis and the toxicity verdict are what they were.
  No other message changes.
\<close>

theorem soft_delete_clears_text:
  assumes found: "findById db i = Some m" and allowed: "permitted e m u = Inr True"
  shows "\<exists>m'. findById (store (deleteMessage e db i u)) i = Some m' \<and>
           m' = m\<lparr>isDeleted := True, msg_text := None\<rparr> \<and>
           isDeleted m' \<and> msg_text m' = None \<and> msg_text (decrypt_text e m') = None \<and>
           msg_image m' = msg_image m \<and> sentiment m' = sentiment m \<and>
           sentimentAnalysis m' = sentimentAnalysis m \<and>
           sentimentOverridden m' = sentimentOverridden m \<and> toxicity m' = toxicity m \<and>
           (\<forall>j. j \<noteq> i \<longrightarrow> findById (store (deleteMessage e db i u)) j = findById db j)"
proof -
  let ?m' = "m\<lparr>isDeleted := True, msg_text := None\<rparr>"
  have i: "mid ?m' = i" using findById_mid[OF found] by simp
  have st: "store (deleteMessage e db i u) = save ?m' db"
    by (rule store_deleteMessage[OF found allowed])
  have "findById (save ?m' db) i = Some ?m'"
    using findById_save_same[of db ?m' m] found i by simp
  moreover have "\<forall>j. j \<noteq> i \<longrightarrow> findById (save ?m' db) j = findById db j"
    using findById_save_other[of _ ?m' db] i by simp
  ultimately show ?thesis by (simp add: st decrypt_text_def)
qed

theorem soft_delete_clears_text_witness:
  "permitted offline_env alice_to_bob ''bob'' = Inr True \<and>
   findById (store (deleteMessage offline_env [alice_to_bob] ''m1'' ''bob'')) ''m1''
     = Some (alice_to_bob\<lparr>isDeleted := True, msg_text := None\<rparr>) \<and>
   msg_text alice_to_bob = Some (map (shift 4) t_hi)"
proof -
  have found: "findById [alice_to_bob] ''m1'' = Some alice_to_bob"
    by (simp add: findById_def alice_to_bob_def msg_def)
  have allowed: "permitted offline_env alice_to_bob ''bob'' = Inr True"
    by (simp add: permitted_def offline_env_def alice_to_bob_def msg_def truthy_def)
  have hastext: "msg_text alice_to_bob = Some (map (shift 4) t_hi)"
    by (simp add: alice_to_bob_def msg_def)
  from soft_delete_clears_text [OF found allowed] allowed hastext show ?thesis by auto
qed

section \<open>sendMessage: the empty payload\<close>

lemma dropWhile_all: "(\<forall>x \<in> set (dropWhile P s). P x) \<longleftrightarrow> (\<forall>x \<in> set s. P x)"
  by (induction s) auto

lemma trim_empty_iff: "trim s = [] \<longleftrightarrow> (\<forall>c \<in> set s. js_space c)"
  by (simp add: trim_def dropWhile_eq_Nil_conv dropWhile_all)

text \<open>
  C6. \<open>sendMessage\<close> answers 400 exactly when the text is absent, empty or only white
  space and the image is absent or empty; the collection is then what it was and no event
  is emitted.
\<close>

theorem empty_send_rejected:
  "(status (sendMessage e db req newId now) = 400 \<longleftrightarrow>
      (req_text req = None \<or> (\<exists>s. req_text req = Some s \<and> (\<forall>c \<in> set s. js_space c))) \<and>
      (req_image req = None \<or> req_image req = Some [])) \<and>
   (status (sendMessage e db req newId now) = 400 \<longrightarrow>
      body (sendMessage e db req newId now) = MessageBody ''Message must contain text or image'' \<and>
      store (sendMessage e db req newId now) = db \<and>
      emitted (sendMessage e db req newId now) = [])"
  by (auto simp: sendMessage_def has_text_def truthy_def trim_empty_iff Let_def split: option.splits)

theorem empty_send_rejected_witness:
  "status (sendMessage offline_env [alice_to_bob]
      (request (Some t_nbsp) None None (Some ''bob'') ''alice'') ''m2'' 20) = 400 \<and>
   store (sendMessage offline_env [alice_to_bob]
      (request (Some t_nbsp) None None (Some ''bob'') ''alice'') ''m2'' 20) = [alice_to_bob] \<and>
   emitted (sendMessage offline_env [alice_to_bob]
      (request (Some t_nbsp) None None (Some ''bob'') ''alice'') ''m2'' 20) = [] \<and>
   status (sendMessage offline_env [alice_to_bob]
      (request (Some t_blank) (Some []) None (Some ''bob'') ''alice'') ''m2'' 20) = 400 \<and>
   status (sendMessage offline_env [alice_to_bob]
      (request (Some t_hi) None None (Some ''bob'') ''alice'') ''m2'' 20) \<noteq> 400"
proof -
  let ?req = "request (Some t_nbsp) None None (Some ''bob'') ''alice''"
  let ?req2 = "request (Some t_blank) (Some []) None (Some ''bob'') ''alice''"
  let ?req3 = "request (Some t_hi) None None (Some ''bob'') ''alice''"
  have t: "req_text ?req = Some t_nbsp" and i: "req_image ?req = None"
    by (simp_all add: request_def)
  have t2: "req_text ?req2 = Some t_blank" and i2: "req_image ?req2 = Some []"
    by (simp_all add: request_def)
  have t3: "req_text ?req3 = Some t_hi"
    by (simp add: request_def)
  have sp: "\<forall>c \<in> set t_nbsp. js_space c" "\<forall>c \<in> set t_blank. js_space c"
    by (simp_all add: js_space_def t_nbsp_def t_blank_def)
  have nsp: "\<not> (\<forall>c \<in> set t_hi. js_space c)"
    by (simp add: js_space_def t_hi_def)
  from empty_send_rejected [of offline_env "[alice_to_bob]" ?req "''m2''" 20] t i sp
  have first: "status (sendMessage offline_env [alice_to_bob] ?req ''m2'' 20) = 400 \<and>
      store (sendMessage offline_env [alice_to_bob] ?req ''m2'' 20) = [alice_to_bob] \<and>
      emitted (sendMessage offline_env [alice_to_bob] ?req ''m2'' 20) = []"
    by auto
  from empty_send_rejected [of offline_env "[alice_to_bob]" ?req2 "''m2''" 20] t2 i2 sp
  have second: "status (sendMessage offline_env [alice_to_bob] ?req2 ''m2'' 20) = 400"
    by auto
  from empty_send_rejected [of offline_env "[alice_to_bob]" ?req3 "''m2''" 20] t3 nsp
  have third: "status (sendMessage offline_env [alice_to_bob] ?req3 ''m2'' 20) \<noteq> 400"
    by auto
  from first second third show ?thesis by blast
qed

section \<open>sendMessage: when the classifier fails\<close>

text \<open>
  C7, as the code has it. When the classifier fails on the text of a send, the send
  answers 201 and stores the message; the stored sentiment is the sentiment that the
  request carries, and \<open>neutral\<close> when the request carries none; the stored toxicity
  verdict is the non-toxic default.
\<close>

theorem failed_classification_uses_request_sentiment:
  assumes hastext: "req_text req = Some t" and nonblank: "trim t \<noteq> []"
    and fails: "analyzeTextToxicityWithEnhancedSentiment e t (or_else (req_selectedModel req) ''svc'') = None"
  shows "status (sendMessage e db req newId now) = 201 \<and>
         (\<exists>d p. store (sendMessage e db req newId now) = db @ [d] \<and>
            body (sendMessage e db req newId now) = Doc p \<and>
            mid d = newId \<and> mid p = newId \<and>
            sentiment d = or_else (req_sentiment req) ''neutral'' \<and>
            sentiment p = or_else (req_sentiment req) ''neutral'' \<and>
            sentimentAnalysis d =
              a_sentiment (literal_analysis (or_else (req_sentiment req) ''neutral'') ''fallback'') \<and>
            toxicity d = a_toxicity (literal_analysis ''neutral'' ''fallback'') \<and>
            \<not> isToxic (toxicity d) \<and>
            msg_text d = Some (encryptCaesar e t)) \<and>
         (req_sentiment req = None \<or> req_sentiment req = Some [] \<longrightarrow>
            map sentiment (store (sendMessage e db req newId now)) = map sentiment db @ [''neutral''])"
proof -
  have t: "t \<noteq> []" using nonblank by (auto simp: trim_def)
  have ht: "has_text (req_text req)" using hastext nonblank by (simp add: has_text_def)
  have an: "analyse e req = literal_analysis (or_else (req_sentiment req) ''neutral'') ''fallback''"
    using hastext nonblank fails by (simp add: analyse_def)
  let ?d = "created newId now (messageData e req)"
  have st: "store (sendMessage e db req newId now) = db @ [?d]"
    using ht by (simp add: sendMessage_def Let_def)
  have status: "status (sendMessage e db req newId now) = 201"
    using ht by (simp add: sendMessage_def Let_def)
  have d: "mid ?d = newId" "sentiment ?d = or_else (req_sentiment req) ''neutral''"
    "sentimentAnalysis ?d =
       a_sentiment (literal_analysis (or_else (req_sentiment req) ''neutral'') ''fallback'')"
    "toxicity ?d = a_toxicity (literal_analysis ''neutral'' ''fallback'')"
    "\<not> isToxic (toxicity ?d)" "msg_text ?d = Some (encryptCaesar e t)"
    using hastext t by (simp_all add: created_def messageData_def Let_def an literal_analysis_def)
  obtain p where p: "body (sendMessage e db req newId now) = Doc p" "mid p = mid ?d"
    "sentiment p = sentiment ?d"
    using ht
    by (simp add: sendMessage_def Let_def decrypt_reply_keeps decrypt_text_keeps with_reply_keeps)
  have last: "req_sentiment req = None \<or> req_sentiment req = Some [] \<longrightarrow>
      map sentiment (store (sendMessage e db req newId now)) = map sentiment db @ [''neutral'']"
    using st d(2) by (auto simp: or_else_def)
  from status st d p last show ?thesis by auto
qed

theorem failed_classification_uses_request_sentiment_witness:
  "status (sendMessage offline_env [] (request (Some t_hi) None None (Some ''bob'') ''alice'') ''m2'' 20) = 201 \<and>
   map sentiment (store (sendMessage offline_env []
      (request (Some t_hi) None None (Some ''bob'') ''alice'') ''m2'' 20)) = [''neutral'']"
proof -
  let ?req = "request (Some t_hi) None None (Some ''bob'') ''alice''"
  have t: "req_text ?req = Some t_hi" and s: "req_sentiment ?req = None"
    by (simp_all add: request_def)
  have nonblank: "trim t_hi \<noteq> []"
    by (simp add: trim_def js_space_def t_hi_def)
  have fails: "analyzeTextToxicityWithEnhancedSentiment offline_env t_hi
                 (or_else (req_selectedModel ?req) ''svc'') = None"
    by (simp add: offline_env_def)
  from failed_classification_uses_request_sentiment [OF t nonblank fails, of "[]" "''m2''" 20] s
  show ?thesis by simp
qed

text \<open>
  The classifier fails on \<open>hi\<close>, the request carries the sentiment \<open>positive\<close>: the
  send succeeds and the stored sentiment is \<open>positive\<close>.
\<close>

theorem failed_classification_not_neutral_counterexample:
  "analyzeTextToxicityWithEnhancedSentiment offline_env t_hi ''svc'' = None \<and>
   status (sendMessage offline_env []
      (request (Some t_hi) None (Some ''positive'') (Some ''bob'') ''alice'') ''m2'' 20) = 201 \<and>
   map sentiment (store (sendMessage offline_env []
      (request (Some t_hi) None (Some ''positive'') (Some ''bob'') ''alice'') ''m2'' 20))
     = [''positive'']"
  by (simp add: sendMessage_def created_def messageData_def analyse_def or_else_def has_text_def
      trim_def js_space_def t_hi_def request_def offline_env_def literal_analysis_def Let_def)

section \<open>editMessage without content\<close>





section \<open>Who receives the event of an edit, a deletion or a pin\<close>

text \<open>
  C1, at a direct message from \<open>alice\<close> to \<open>bob\<close>, both connected, edited, deleted or
  pinned by \<open>bob\<close>. The second socket is looked up for the caller, not for the
  message's sender: the event goes to \<open>bob\<close>'s socket and never to \<open>alice\<close>'s.
\<close>

theorem update_by_receiver_skips_sender:
  "senderId alice_to_bob = Raw ''alice'' \<and> receiverId alice_to_bob = Raw ''bob'' \<and>
   getReceiverSocketId offline_env (Some ''alice'') = Some ''sock_a'' \<and>
   getReceiverSocketId offline_env (Some ''bob'') = Some ''sock_b'' \<and>
   status (editMessage offline_env [alice_to_bob] ''m1'' (Some t_yo) ''bob'') = 200 \<and>
   map fst (emitted (editMessage offline_env [alice_to_bob] ''m1'' (Some t_yo) ''bob''))
     = [ToSocket ''sock_b''] \<and>
   status (deleteMessage offline_env [alice_to_bob] ''m1'' ''bob'') = 200 \<and>
   map fst (emitted (deleteMessage offline_env [alice_to_bob] ''m1'' ''bob''))
     = [ToSocket ''sock_b''] \<and>
   status (pinMessage offline_env [alice_to_bob] ''m1'' ''bob'') = 200 \<and>
   map fst (emitted (pinMessage offline_env [alice_to_bob] ''m1'' ''bob''))
     = [ToSocket ''sock_b'']"
  by (simp add: editMessage_def deleteMessage_def pinMessage_def findById_def permitted_def
      emit_update_def emit_direct_def to_socket_def populate_parties_def truthy_def
      alice_to_bob_def msg_def offline_env_def t_yo_def Let_def)


section \<open>getMessages: the history of a conversation\<close>

lemma send_stores_encryption:
  "req_text req = Some t \<Longrightarrow> t \<noteq> [] \<Longrightarrow>
   msg_text (created newId now (messageData e req)) = Some (encryptCaesar e t) \<and>
   isEncrypted (created newId now (messageData e req))"
  by (simp add: created_def messageData_def Let_def)

lemma edit_stores_encryption:
  assumes "findById db i = Some m" "permitted e m u = Inr True" "t \<noteq> []"
  shows "findById (store (editMessage e db i (Some t) u)) i =
           Some (m\<lparr>msg_text := Some (encryptCaesar e t), edited := True\<rparr>)"
proof -
  let ?saved = "m\<lparr>msg_text := Some (encryptCaesar e t), edited := True\<rparr>"
  have "mid ?saved = i" using findById_mid[OF assms(1)] by simp
  then have "findById (save ?saved db) i = Some ?saved"
    using findById_save_same[of db ?saved m] assms(1) by simp
  then show ?thesis
    using assms by (simp add: editMessage_def Let_def store_emit_update)
qed















end
